theory Spec2Isabelle
  imports Main
begin

section \<open>Accordion (views/performance/landing/widgets/components/accordion.tsx)\<close>

text \<open>
  An accordion item is a pair of render callbacks, \<^verbatim>\<open>content: () => ReactNode\<close> and
  \<^verbatim>\<open>header: () => ReactNode\<close>. A JavaScript callback may do anything when it is called,
  so a callback is modelled as a state transformer that also returns its node: calling it
  in state \<open>s\<close> gives the node and the state after the call. A callback that is never
  called leaves no mark on the state.
\<close>

type_synonym ('s, 'n) renderer = "'s \<Rightarrow> 'n \<times> 's"

record ('s, 'n) AccordionItemContent =
  content :: "('s, 'n) renderer"
  header :: "('s, 'n) renderer"

text \<open>
  \<^verbatim>\<open>interface Props\<close>. \<^verbatim>\<open>expandedIndex\<close> is a JavaScript number; the integers are
  modelled. \<^verbatim>\<open>setExpandedIndex\<close> is the caller's callback: it acts on the caller's state
  \<open>'st\<close>. The optional \<^verbatim>\<open>buttonOnLeft\<close> is only tested for truthiness, so
  \<^verbatim>\<open>undefined\<close> is \<open>False\<close>.
\<close>

record ('s, 'n, 'st) Accordion_Props =
  expandedIndex :: int
  items :: "('s, 'n) AccordionItemContent list"
  setExpandedIndex :: "int \<Rightarrow> 'st \<Rightarrow> 'st"
  buttonOnLeft :: bool

datatype direction = up | down

text \<open>The \<^verbatim>\<open><Button>\<close> of an item: its chevron, its ARIA attributes and its click handler.\<close>

record 'st Button =
  icon_direction :: direction
  aria_label :: string
  aria_expanded :: bool
  onClick :: "'st \<Rightarrow> 'st"

text \<open>
  The \<^verbatim>\<open><StyledLineItem>\<close> that \<^verbatim>\<open>AccordionItem\<close> returns, one constructor per branch of
  \<^verbatim>\<open>buttonOnLeft ? ... : ...\<close>, the fields in the order of the JSX. The last field is
  \<^verbatim>\<open>{isExpanded && content}\<close>: \<open>None\<close> is the \<^verbatim>\<open>false\<close> that React renders as nothing.
\<close>

datatype ('n, 'st) StyledLineItem =
  ButtonLeftListItem (button: "'st Button") (children: 'n) (shown: "'n option")
| ListItem (children: 'n) (button: "'st Button") (shown: "'n option")

definition AccordionItem ::
  "bool \<Rightarrow> nat \<Rightarrow> 'n \<Rightarrow> (int \<Rightarrow> 'st \<Rightarrow> 'st) \<Rightarrow> 'n \<Rightarrow> bool \<Rightarrow> ('n, 'st) StyledLineItem" where
  "AccordionItem isExpanded index chldrn setExpIndex cntnt btnOnLeft =
     (if btnOnLeft then
        ButtonLeftListItem
          \<lparr>icon_direction = (if isExpanded then up else down),
           aria_label = ''Expand'',
           aria_expanded = isExpanded,
           onClick = setExpIndex (int index)\<rparr>
          chldrn
          (if isExpanded then Some cntnt else None)
      else
        ListItem
          chldrn
          \<lparr>icon_direction = (if isExpanded then up else down),
           aria_label = ''Expand'',
           aria_expanded = isExpanded,
           onClick = setExpIndex (int index)\<rparr>
          (if isExpanded then Some cntnt else None))"

text \<open>
  \<^verbatim>\<open>items.map((item, index) => <AccordionItem ... content={item.content()} ...>
  {item.header()}</AccordionItem>)\<close>, from index \<open>index\<close> on. For each item the props are
  evaluated first, so \<^verbatim>\<open>item.content()\<close> is called, then the child \<^verbatim>\<open>item.header()\<close>.
\<close>

fun Accordion_map ::
  "('s, 'n, 'st) Accordion_Props \<Rightarrow> nat \<Rightarrow> ('s, 'n) AccordionItemContent list \<Rightarrow> 's
     \<Rightarrow> ('n, 'st) StyledLineItem list \<times> 's" where
  "Accordion_map props index [] s = ([], s)"
| "Accordion_map props index (item # rest) s =
     (let (c, s1) = content item s;
          (h, s2) = header item s1;
          el = AccordionItem (int index = expandedIndex props) index h
                 (setExpandedIndex props) c (buttonOnLeft props);
          (els, s3) = Accordion_map props (Suc index) rest s2
      in (el # els, s3))"

definition Accordion ::
  "('s, 'n, 'st) Accordion_Props \<Rightarrow> 's \<Rightarrow> ('n, 'st) StyledLineItem list \<times> 's" where
  "Accordion props s = Accordion_map props 0 (items props) s"

text \<open>A click on the button of a rendered item runs its \<^verbatim>\<open>onClick\<close> handler.\<close>

definition click :: "('n, 'st) StyledLineItem \<Rightarrow> 'st \<Rightarrow> 'st" where
  "click el st = onClick (button el) st"

text \<open>An item is rendered expanded when its button says so (\<^verbatim>\<open>aria-expanded\<close>).\<close>

definition is_expanded :: "('n, 'st) StyledLineItem \<Rightarrow> bool" where
  "is_expanded el = aria_expanded (button el)"


section \<open>SentryAppAvatar (components/avatar/sentryAppAvatar.tsx)\<close>

text \<open>
  The types \<^verbatim>\<open>AvatarSentryApp\<close> and its avatars are declared in \<^verbatim>\<open>sentry/types\<close>, which is
  not among the sources; the records hold the fields the component reads. The type of
  \<^verbatim>\<open>avatarUuid\<close> is left open. \<^verbatim>\<open>color\<close> and \<^verbatim>\<open>avatars\<close> may be missing
  (\<^verbatim>\<open>sentryApp?.avatars?.find\<close>).
\<close>

record 'u Avatar =
  avatarType :: string
  avatarUuid :: 'u
  color :: "bool option"

record 'u AvatarSentryApp =
  name :: string
  avatars :: "'u Avatar list option"

text \<open>
  \<^verbatim>\<open>type Props = {isColor?, isDefault?, sentryApp?} & BaseAvatar['props']\<close>. Of the
  \<^verbatim>\<open>BaseAvatar\<close> props the component reads \<^verbatim>\<open>size\<close> and \<^verbatim>\<open>className\<close>; the others are passed
  on with them (\<^verbatim>\<open>{...props}\<close>) and are the type \<open>'p\<close>.
\<close>

record 'p BaseAvatar_props =
  avatar_size :: "nat option"
  className :: "string option"
  other_props :: 'p

record ('u, 'p) SentryAppAvatar_Props =
  isColor :: "bool option"
  isDefault :: "bool option"
  sentryApp :: "'u AvatarSentryApp option"
  props :: "'p BaseAvatar_props"

text \<open>
  What the component returns: the \<^verbatim>\<open><IconGeneric>\<close> of the default avatar, or a
  \<^verbatim>\<open><BaseAvatar>\<close> with its attributes in the order of the JSX. \<^verbatim>\<open>legacySize\<close> holds the
  size that the template string \<^verbatim>\<open>`${props.size}`\<close> prints.
\<close>

datatype ('u, 'p) avatar_element =
  IconGeneric (legacySize: "nat option") (icon_className: "string option") (data_test_id: string)
| BaseAvatar (base_props: "'p BaseAvatar_props") (avatar_kind: string) (uploadPath: string)
    (uploadId: 'u) (uploadDomain: "string option") (title: "string option")
    (backupAvatar: "('u, 'p) avatar_element")

text \<open>\<^verbatim>\<open>sentryApp?.avatars?.find(({color}) => color === isColor)\<close>: the first match.\<close>

definition avatarDetails :: "bool \<Rightarrow> 'u AvatarSentryApp option \<Rightarrow> 'u Avatar option" where
  "avatarDetails isClr app =
     (case app of
        None \<Rightarrow> None
      | Some a \<Rightarrow>
          (case avatars a of
             None \<Rightarrow> None
           | Some avs \<Rightarrow> find (\<lambda>av. color av = Some isClr) avs))"

definition defaultSentryAppAvatar :: "'p BaseAvatar_props \<Rightarrow> ('u, 'p) avatar_element" where
  "defaultSentryAppAvatar ps =
     IconGeneric (avatar_size ps) (className ps) ''default-sentry-app-avatar''"

text \<open>
  The component. \<open>sentryUrl\<close> is \<^verbatim>\<open>window.__initialData?.links?.sentryUrl\<close>, a global that
  is a parameter here. \<^verbatim>\<open>isColor = true\<close> is the default of the destructuring, taken when
  the prop is \<^verbatim>\<open>undefined\<close>; \<^verbatim>\<open>isDefault\<close> is tested for truthiness.
\<close>

definition SentryAppAvatar ::
  "string option \<Rightarrow> ('u, 'p) SentryAppAvatar_Props \<Rightarrow> ('u, 'p) avatar_element" where
  "SentryAppAvatar sentryUrl P =
     (let isClr = (case isColor P of None \<Rightarrow> True | Some b \<Rightarrow> b);
          details = avatarDetails isClr (sentryApp P);
          dflt = defaultSentryAppAvatar (props P)
      in if isDefault P = Some True then dflt
         else case details of
                None \<Rightarrow> dflt
              | Some d \<Rightarrow>
                  if avatarType d = ''default'' then dflt
                  else BaseAvatar (props P) ''upload'' ''sentry-app-avatar'' (avatarUuid d)
                         sentryUrl (map_option name (sentryApp P)) dflt)"

text \<open>
  The claim's wording, to compare the component with: the avatars of the app whose colour
  flag equals the \<^verbatim>\<open>isColor\<close> prop (\<^verbatim>\<open>true\<close> when the prop is not given), in the order of
  \<^verbatim>\<open>sentryApp.avatars\<close>; none when the app or its avatars are missing.
\<close>

definition matching_avatars :: "('u, 'p) SentryAppAvatar_Props \<Rightarrow> 'u Avatar list" where
  "matching_avatars P =
     filter (\<lambda>av. color av = Some (case isColor P of None \<Rightarrow> True | Some b \<Rightarrow> b))
       (case sentryApp P of
          None \<Rightarrow> []
        | Some a \<Rightarrow> (case avatars a of None \<Rightarrow> [] | Some avs \<Rightarrow> avs))"

section \<open>VitalDetailContent (the second module of components/avatar/sentryAppAvatar.tsx)\<close>

text \<open>
  The query of a \<^verbatim>\<open>Location\<close> is an object from parameter names to values; a value is a
  string, an array of strings, \<^verbatim>\<open>null\<close> or \<^verbatim>\<open>undefined\<close>. A key that the object does not
  have is \<open>None\<close>; a key that is there with the value \<^verbatim>\<open>undefined\<close> is \<open>Some Undefined\<close>.
\<close>

datatype QueryValue = Undefined | Null | Str string | Arr "string list"

type_synonym Query = "string \<Rightarrow> QueryValue option"

record Location =
  pathname :: string
  query :: Query

text \<open>\<^verbatim>\<open>enum DisplayModes\<close>: a string enum, its members are these strings.\<close>

definition WORST_VITALS :: string where
  "WORST_VITALS = ''Worst Vitals''"

definition DURATION_P75 :: string where
  "DURATION_P75 = ''P75''"

text \<open>
  \<^verbatim>\<open>enum WebVital\<close> is declared in \<^verbatim>\<open>sentry/utils/discover/fields\<close>, which is not among the
  sources. The module names four of its members; \<open>OtherVital\<close> stands for the members it
  does not name. The string of a member, which is what a query holds, is a parameter
  (\<open>vitalString\<close>) of the functions that need it.
\<close>

datatype WebVital = FCP | LCP | FID | CLS | OtherVital string




text \<open>\<^verbatim>\<open>omit(object, key)\<close> of lodash: the object without the key.\<close>

definition omit :: "Query \<Rightarrow> string \<Rightarrow> Query" where
  "omit q k = q(k := None)"

text \<open>
  The three transitions. Each calls \<^verbatim>\<open>browserHistory.push\<close> once; the function returns the
  location that is pushed. \<^verbatim>\<open>normalizeDateTimeParams\<close> is declared in
  \<^verbatim>\<open>sentry/components/organizations/pageFilters/parse\<close>, which is not among the sources: it
  is a parameter. \<^verbatim>\<open>location.query || {}\<close> is \<^verbatim>\<open>location.query\<close>, an object. After the
  push \<^verbatim>\<open>switchWebVital\<close> sends an analytics event, which is not modelled.
\<close>

definition handleSearch :: "(Query \<Rightarrow> Query) \<Rightarrow> Location \<Rightarrow> string \<Rightarrow> Location" where
  "handleSearch normalizeDateTimeParams location qry =
     (let queryParams = normalizeDateTimeParams ((query location)(''query'' \<mapsto> Str qry));
          searchQueryParams = omit queryParams ''cursor''
      in \<lparr>pathname = pathname location, query = searchQueryParams\<rparr>)"

definition switchWebVital :: "(WebVital \<Rightarrow> string) \<Rightarrow> Location \<Rightarrow> WebVital \<Rightarrow> Location" where
  "switchWebVital vitalString location newVitalName =
     \<lparr>pathname = pathname location,
      query = (query location)(''vitalName'' \<mapsto> Str (vitalString newVitalName),
                               ''cursor'' \<mapsto> Undefined)\<rparr>"

definition handleDisplayChange :: "Location \<Rightarrow> string \<Rightarrow> Location" where
  "handleDisplayChange location v =
     \<lparr>pathname = pathname location,
      query = (query location)(''display'' \<mapsto> Str v)\<rparr>"

text \<open>
  A query carries a cursor when the key is there with a value: a key whose value is
  \<^verbatim>\<open>undefined\<close> is left out of the URL that the router writes.
\<close>

definition carries_cursor :: "Query \<Rightarrow> bool" where
  "carries_cursor q =
     (case q ''cursor'' of None \<Rightarrow> False | Some Undefined \<Rightarrow> False | Some _ \<Rightarrow> True)"

text \<open>
  \<^verbatim>\<open>renderContent\<close>, the part that reads \<^verbatim>\<open>display\<close>: the chart above the table
  (\<^verbatim>\<open>display === DisplayModes.WORST_VITALS ? <VitalWidgetWrapper>...  : <VitalChart .../>\<close>),
  the total (\<^verbatim>\<open>display === DisplayModes.WORST_VITALS && defined(totalEventsCount) ?
  <Count .../> : em dash\<close>) and the option selector (\<^verbatim>\<open>selected={display}\<close>). The two
  charts are built from props that do not depend on \<^verbatim>\<open>display\<close>; they are the parameters
  \<open>widget\<close> and \<open>chart\<close>. The other children of the fragment (filters, search bar,
  \<^verbatim>\<open>VitalInfo\<close>, the table) do not read \<^verbatim>\<open>display\<close> and are left out.
\<close>

datatype ('w, 'c) main_view = VitalWidgetWrapper 'w | VitalChart 'c

datatype total_value = Count int | EmDash

record ('w, 'c) Content =
  chart_view :: "('w, 'c) main_view"
  total_events :: total_value
  selected :: string

definition renderContent :: "string \<Rightarrow> int option \<Rightarrow> 'w \<Rightarrow> 'c \<Rightarrow> ('w, 'c) Content" where
  "renderContent dsp totalEventsCount widget chart =
     \<lparr>chart_view = (if dsp = WORST_VITALS then VitalWidgetWrapper widget else VitalChart chart),
      total_events =
        (case totalEventsCount of
           Some n \<Rightarrow> if dsp = WORST_VITALS then Count n else EmDash
         | None \<Rightarrow> EmDash),
      selected = dsp\<rparr>"


section \<open>SampleTable (views/starfish/views/spanSummaryPage/sampleList/sampleTable/sampleTable.tsx)\<close>

text \<open>
  The three hooks (\<^verbatim>\<open>useSpanMetrics\<close>, \<^verbatim>\<open>useSpanSamples\<close>, \<^verbatim>\<open>useTransactions\<close>) are declared
  outside the sources. The component is a function of what they returned for this render;
  the records hold the fields that the component destructures. A sample and a transaction
  are records of which the component reads one field (\<^verbatim>\<open>sample['transaction.id']\<close> and the
  \<^verbatim>\<open>id\<close> that \<^verbatim>\<open>keyBy\<close> reads); their other fields are the extension of the record. An
  \<^verbatim>\<open>error\<close> is \<open>None\<close> when the hook reports none (\<^verbatim>\<open>null\<close>, falsy). The component
  reads \<^verbatim>\<open>spans.map\<close> and \<^verbatim>\<open>spans.length\<close> without a guard everywhere, so \<^verbatim>\<open>spans\<close> is a
  list. \<^verbatim>\<open>spanMetrics\<close> may be \<^verbatim>\<open>undefined\<close> (line 129 reads it with \<^verbatim>\<open>?.\<close>), which is
  \<open>None\<close>, and so may \<^verbatim>\<open>transactions\<close> (\<^verbatim>\<open>transactions?.length\<close>). The component does not
  read an error of \<^verbatim>\<open>useSpanMetrics\<close>.
\<close>

record SpanSample =
  transaction_id :: string

record Transaction =
  tx_id :: string

text \<open>
  A plain JavaScript object is the map of its own properties. Reading \<^verbatim>\<open>object[key]\<close>
  gives the own property when there is one; otherwise the lookup goes on to
  \<^verbatim>\<open>Object.prototype\<close>, whose members have the names below, and gives \<^verbatim>\<open>undefined\<close> only
  when the key is none of them.
\<close>

type_synonym 'v plain_object = "string \<Rightarrow> 'v option"

datatype 'v property = Own 'v | Inherited string | NotFound

definition Object_prototype_keys :: "string list" where
  "Object_prototype_keys =
     [''constructor'', ''hasOwnProperty'', ''isPrototypeOf'', ''propertyIsEnumerable'',
      ''toLocaleString'', ''toString'', ''valueOf'', ''__proto__'',
      ''__defineGetter__'', ''__defineSetter__'', ''__lookupGetter__'', ''__lookupSetter__'']"

definition bracket :: "'v plain_object \<Rightarrow> string \<Rightarrow> 'v property" where
  "bracket object key =
     (case object key of
        Some v \<Rightarrow> Own v
      | None \<Rightarrow> if key \<in> set Object_prototype_keys then Inherited key else NotFound)"

record 'm SpanMetrics_result =
  spanMetrics :: "'m plain_object option"
  isFetchingSpanMetrics :: bool

record ('a, 'e) SpanSamples_result =
  spans :: "'a SpanSample_scheme list"
  isFetchingSamples :: bool
  isSamplesEnabled :: bool
  sampleError :: "'e option"

record ('b, 'e) Transactions_result =
  transactions :: "'b Transaction_scheme list option"
  isFetchingTransactions :: bool
  isTransactionsEnabled :: bool
  isLoadingTransactions :: bool
  transactionError :: "'e option"

text \<open>
  \<^verbatim>\<open>keyBy(collection, 'id')\<close> of lodash: a plain object with one own property for each key,
  the last element with that key; the empty object for \<^verbatim>\<open>undefined\<close>.
\<close>

definition keyBy :: "'t list option \<Rightarrow> ('t \<Rightarrow> string) \<Rightarrow> 't plain_object" where
  "keyBy collection key =
     (case collection of
        None \<Rightarrow> Map.empty
      | Some xs \<Rightarrow> fold (\<lambda>x m. m(key x \<mapsto> x)) xs Map.empty)"

text \<open>
  A row of the table: \<^verbatim>\<open>{...sample, op: spanMetrics[SPAN_OP], transaction:
  transactionsById[sample['transaction.id']]}\<close>.
\<close>

record ('a, 'b, 'm) JoinedRecord =
  sample :: "'a SpanSample_scheme"
  op :: "'m property"
  transaction :: "'b Transaction_scheme property"

text \<open>
  Reading a property of \<^verbatim>\<open>undefined\<close> throws a \<^verbatim>\<open>TypeError\<close>. The callback of
  \<^verbatim>\<open>spans.map\<close> reads \<^verbatim>\<open>spanMetrics[SPAN_OP]\<close> first, so it throws when \<^verbatim>\<open>spanMetrics\<close> is
  \<^verbatim>\<open>undefined\<close>; \<^verbatim>\<open>Array.prototype.map\<close> stops at the first call that throws.
\<close>

datatype js_error = TypeError

definition joined_record ::
  "'m plain_object option \<Rightarrow> string \<Rightarrow> 'b Transaction_scheme plain_object
     \<Rightarrow> 'a SpanSample_scheme \<Rightarrow> js_error + ('a, 'b, 'm) JoinedRecord" where
  "joined_record metrics_data SPAN_OP transactionsById smp =
     (case metrics_data of
        None \<Rightarrow> Inl TypeError
      | Some m \<Rightarrow>
          Inr \<lparr>sample = smp,
               op = bracket m SPAN_OP,
               transaction = bracket transactionsById (transaction_id smp)\<rparr>)"

fun array_map :: "('x \<Rightarrow> js_error + 'y) \<Rightarrow> 'x list \<Rightarrow> js_error + 'y list" where
  "array_map f [] = Inr []"
| "array_map f (x # xs) =
     (case f x of
        Inl e \<Rightarrow> Inl e
      | Inr y \<Rightarrow> (case array_map f xs of Inl e \<Rightarrow> Inl e | Inr ys \<Rightarrow> Inr (y # ys)))"

text \<open>
  What a render does: first the call of \<^verbatim>\<open>setPageError\<close> (\<open>None\<close> when it is not called,
  else the message), then the element it returns, or the error that building it throws.
  The element is given by the props that \<^verbatim>\<open>VisuallyCompleteWithData\<close> and \<^verbatim>\<open>SpanSamplesTable\<close>
  get.
\<close>

record ('a, 'b, 'm) SampleTable_element =
  hasData :: bool
  table_data :: "('a, 'b, 'm) JoinedRecord list"
  isLoading :: bool
  avg :: "'m property"

record ('a, 'b, 'm) SampleTable_render =
  pageError :: "string option"
  element :: "js_error + ('a, 'b, 'm) SampleTable_element"

text \<open>
  The component, from line 97 on. The translation \<^verbatim>\<open>t\<close> and the two members of
  \<^verbatim>\<open>SpanMetricsField\<close> (\<^verbatim>\<open>SPAN_OP\<close>, \<^verbatim>\<open>SPAN_SELF_TIME\<close>), declared outside the sources, are
  parameters. The effect before it sends one analytics event and is not modelled.
\<close>

definition SampleTable ::
  "(string \<Rightarrow> string) \<Rightarrow> string \<Rightarrow> string \<Rightarrow> 'm SpanMetrics_result \<Rightarrow> ('a, 'e) SpanSamples_result
     \<Rightarrow> ('b, 'e) Transactions_result \<Rightarrow> ('a, 'b, 'm) SampleTable_render" where
  "SampleTable t SPAN_OP SPAN_SELF_TIME metrics samples txs =
     (let transactionsById = keyBy (transactions txs) tx_id;
          areNoSamples = (\<not> isFetchingSamples samples \<and> spans samples = []);
          loading = (isFetchingSpanMetrics metrics \<or> isFetchingSamples samples
                       \<or> \<not> isSamplesEnabled samples
                       \<or> (\<not> areNoSamples \<and> isFetchingTransactions txs
                             \<and> \<not> isTransactionsEnabled txs))
      in \<lparr>pageError =
            (if sampleError samples \<noteq> None \<or> transactionError txs \<noteq> None
             then Some (t ''An error has occured while loading the samples table'')
             else None),
          element =
            (case array_map (joined_record (spanMetrics metrics) SPAN_OP transactionsById)
                    (spans samples) of
               Inl e \<Rightarrow> Inl e
             | Inr rows \<Rightarrow>
                 Inr \<lparr>hasData = (length (spans samples) > 0),
                      table_data = rows,
                      isLoading = loading,
                      avg = (case spanMetrics metrics of
                               None \<Rightarrow> NotFound
                             | Some m \<Rightarrow> bracket m (''avg('' @ SPAN_SELF_TIME @ '')''))\<rparr>)\<rparr>)"


section \<open>DataJoiner: the order of selection changes and fetch completions\<close>

text \<open>
  Modelled from the spec: the code that issues the fetches of \<^verbatim>\<open>SampleTable\<close> and applies
  their results is in the hooks \<^verbatim>\<open>useSpanMetrics\<close>, \<^verbatim>\<open>useSpanSamples\<close> and
  \<^verbatim>\<open>useTransactions\<close>, which are not among the sources. The spec: all state transitions
  happen on discrete events (navigation change, data-fetch completion) with no preemption;
  a slice is created when the selection changes and is discarded and replaced wholesale on
  the next change; each in-flight fetch is tagged with the Selection snapshot it was issued
  for, and on arrival the tag is compared against the current Selection: a completion for a
  now-stale Selection is discarded rather than applied. There is no cancellation, so a
  stale fetch stays in flight until it completes.
\<close>

datatype ('sel, 'r) event = SelectionChange 'sel | FetchComplete 'sel 'r

record ('sel, 'r) joiner =
  current :: 'sel
  in_flight :: "'sel list"
  visible :: "'r option"
  applied :: "('sel \<times> 'r) list"

text \<open>
  \<open>visible\<close> is the data on the screen (\<open>None\<close> while loading); \<open>applied\<close> is the history
  of the results that were applied to it, each with the tag of its fetch, the last one
  first.
\<close>

definition init_joiner :: "'sel \<Rightarrow> ('sel, 'r) joiner" where
  "init_joiner s = \<lparr>current = s, in_flight = [s], visible = None, applied = []\<rparr>"

fun joiner_step :: "('sel, 'r) joiner \<Rightarrow> ('sel, 'r) event \<Rightarrow> ('sel, 'r) joiner" where
  "joiner_step j (SelectionChange s) =
     (if s = current j then j
      else j\<lparr>current := s, in_flight := s # in_flight j, visible := None\<rparr>)"
| "joiner_step j (FetchComplete tag r) =
     (if tag \<notin> set (in_flight j) then j
      else if tag = current j
      then j\<lparr>in_flight := remove1 tag (in_flight j), visible := Some r,
              applied := (tag, r) # applied j\<rparr>
      else j\<lparr>in_flight := remove1 tag (in_flight j)\<rparr>)"

definition joiner_run :: "('sel, 'r) joiner \<Rightarrow> ('sel, 'r) event list \<Rightarrow> ('sel, 'r) joiner" where
  "joiner_run j evs = foldl joiner_step j evs"


text \<open>
  The data on the screen is the last result that was applied, and its fetch was issued for
  the current selection.
\<close>

definition visible_is_current :: "('sel, 'r) joiner \<Rightarrow> bool" where
  "visible_is_current j =
     (case visible j of
        None \<Rightarrow> True
      | Some r \<Rightarrow>
          (case applied j of [] \<Rightarrow> False | (tag, r') # _ \<Rightarrow> tag = current j \<and> r' = r))"


section \<open>Properties of the accordion\<close>


lemma Accordion_map_nth:
  "i < length its \<Longrightarrow>
     \<exists>c h. fst (Accordion_map p k its s) ! i =
       AccordionItem (int (k + i) = expandedIndex p) (k + i) h (setExpandedIndex p) c
         (buttonOnLeft p)"
proof (induction its arbitrary: k s i)
  case Nil
  then show ?case by simp
next
  case (Cons item rest)
  show ?case
  proof (cases i)
    case 0
    then show ?thesis by (simp add: case_prod_beta Let_def) blast
  next
    case (Suc j)
    with Cons.prems have "j < length rest" by simp
    from Cons.IH [OF this, of "Suc k"] Suc show ?thesis
      by (simp add: case_prod_beta Let_def)
  qed
qed

lemma Accordion_map_state:
  "snd (Accordion_map p k its s) =
     fold (\<lambda>item s. snd (header item (snd (content item s)))) its s"
  by (induction its arbitrary: k s) (simp_all add: case_prod_beta Let_def)

lemma AccordionItem_is_expanded: "is_expanded (AccordionItem e i h f c b) = e"
  by (simp add: AccordionItem_def is_expanded_def)

lemma AccordionItem_shown: "shown (AccordionItem e i h f c b) = (if e then Some c else None)"
  by (simp add: AccordionItem_def)

lemma AccordionItem_click: "click (AccordionItem e i h f c b) = f (int i)"
  by (auto simp add: AccordionItem_def click_def)


lemma Accordion_nth:
  assumes "i < length (items p)"
  obtains c h where
    "fst (Accordion p s) ! i =
       AccordionItem (int i = expandedIndex p) i h (setExpandedIndex p) c (buttonOnLeft p)"
  using Accordion_map_nth [OF assms, of p 0 s] by (auto simp: Accordion_def)

lemma Accordion_is_expanded:
  "i < length (items p) \<Longrightarrow> is_expanded (fst (Accordion p s) ! i) = (int i = expandedIndex p)"
  by (erule Accordion_nth [of i p s]) (simp add: AccordionItem_is_expanded)



lemma Accordion_map_nth_exact:
  "i < length its \<Longrightarrow>
     fst (Accordion_map p k its s) ! i =
       AccordionItem (int (k + i) = expandedIndex p) (k + i)
         (fst (header (its ! i)
            (snd (content (its ! i)
               (fold (\<lambda>item s. snd (header item (snd (content item s)))) (take i its) s)))))
         (setExpandedIndex p)
         (fst (content (its ! i)
            (fold (\<lambda>item s. snd (header item (snd (content item s)))) (take i its) s)))
         (buttonOnLeft p)"
proof (induction its arbitrary: k s i)
  case Nil
  then show ?case by simp
next
  case (Cons item rest)
  show ?case
  proof (cases i)
    case 0
    then show ?thesis by (simp add: case_prod_beta Let_def)
  next
    case (Suc j)
    with Cons.prems have "j < length rest" by simp
    from Cons.IH [OF this, of "Suc k"] Suc show ?thesis
      by (simp add: case_prod_beta Let_def)
  qed
qed

lemma AccordionItem_children: "children (AccordionItem e i h f c b) = h"
  by (simp add: AccordionItem_def)

text \<open>
  C1, as amended. A render calls the content callback of every item, expanded or not: the
  state after a render is the state after calling, for each item in the order of the list,
  its content callback and then its header callback, whatever \<^verbatim>\<open>expandedIndex\<close> is. Only
  the node of the expanded item is put into the output: when \<open>i\<close> is \<^verbatim>\<open>expandedIndex\<close>,
  item \<open>i\<close> shows the node that its own content callback returned (called after the
  callbacks of the items before it), and otherwise it shows no content. Its child is the
  node that its header callback returned.
\<close>

theorem C1_content_called_for_every_item:
  "snd (Accordion p s) = fold (\<lambda>item s. snd (header item (snd (content item s)))) (items p) s
   \<and> (i < length (items p) \<longrightarrow>
        shown (fst (Accordion p s) ! i) =
          (if int i = expandedIndex p
           then Some (fst (content (items p ! i)
                     (fold (\<lambda>item s. snd (header item (snd (content item s))))
                        (take i (items p)) s)))
           else None)
        \<and> children (fst (Accordion p s) ! i) =
            fst (header (items p ! i)
              (snd (content (items p ! i)
                 (fold (\<lambda>item s. snd (header item (snd (content item s))))
                    (take i (items p)) s)))))"
  by (simp add: Accordion_def Accordion_map_state Accordion_map_nth_exact AccordionItem_shown
        AccordionItem_children)

text \<open>
  The amended C1 at two items whose content callbacks append their index to a log, item 1
  expanded: both callbacks have run, item 1 shows the node of its own content callback, and
  item 0 shows no content.
\<close>

theorem C1_content_called_for_every_item_witness:
  "snd (Accordion
       \<lparr>expandedIndex = 1,
        items = [\<lparr>content = (\<lambda>log. (''content 0'', log @ [0::nat])),
                  header = (\<lambda>log. (''header 0'', log))\<rparr>,
                 \<lparr>content = (\<lambda>log. (''content 1'', log @ [1])),
                  header = (\<lambda>log. (''header 1'', log))\<rparr>],
        setExpandedIndex = (\<lambda>i (st::int). i), buttonOnLeft = False\<rparr> []) = [0, 1]
   \<and> shown (fst (Accordion
       \<lparr>expandedIndex = 1,
        items = [\<lparr>content = (\<lambda>log. (''content 0'', log @ [0::nat])),
                  header = (\<lambda>log. (''header 0'', log))\<rparr>,
                 \<lparr>content = (\<lambda>log. (''content 1'', log @ [1])),
                  header = (\<lambda>log. (''header 1'', log))\<rparr>],
        setExpandedIndex = (\<lambda>i (st::int). i), buttonOnLeft = False\<rparr> []) ! 1)
       = Some ''content 1''
   \<and> shown (fst (Accordion
       \<lparr>expandedIndex = 1,
        items = [\<lparr>content = (\<lambda>log. (''content 0'', log @ [0::nat])),
                  header = (\<lambda>log. (''header 0'', log))\<rparr>,
                 \<lparr>content = (\<lambda>log. (''content 1'', log @ [1])),
                  header = (\<lambda>log. (''header 1'', log))\<rparr>],
        setExpandedIndex = (\<lambda>i (st::int). i), buttonOnLeft = False\<rparr> []) ! 0) = None"
  using C1_content_called_for_every_item [of "\<lparr>expandedIndex = 1,
        items = [\<lparr>content = (\<lambda>log. (''content 0'', log @ [0::nat])),
                  header = (\<lambda>log. (''header 0'', log))\<rparr>,
                 \<lparr>content = (\<lambda>log. (''content 1'', log @ [1])),
                  header = (\<lambda>log. (''header 1'', log))\<rparr>],
        setExpandedIndex = (\<lambda>i (st::int). i), buttonOnLeft = False\<rparr>" "[]" 1]
     C1_content_called_for_every_item [of "\<lparr>expandedIndex = 1,
        items = [\<lparr>content = (\<lambda>log. (''content 0'', log @ [0::nat])),
                  header = (\<lambda>log. (''header 0'', log))\<rparr>,
                 \<lparr>content = (\<lambda>log. (''content 1'', log @ [1])),
                  header = (\<lambda>log. (''header 1'', log))\<rparr>],
        setExpandedIndex = (\<lambda>i (st::int). i), buttonOnLeft = False\<rparr>" "[]" 0]
  by simp

text \<open>
  C1 as stated fails. Three items whose content callbacks append their index to a log,
  rendered with \<^verbatim>\<open>expandedIndex = 2\<close> from the empty log: item 0 is not expanded, and the
  log after the render holds the marks of the content callbacks of items 0 and 1.
\<close>

theorem C1_lazy_content_counterexample:
  "\<not> is_expanded (fst (Accordion
       \<lparr>expandedIndex = 2,
        items = [\<lparr>content = (\<lambda>log. (''content 0'', log @ [0::nat])),
                  header = (\<lambda>log. (''header 0'', log))\<rparr>,
                 \<lparr>content = (\<lambda>log. (''content 1'', log @ [1])),
                  header = (\<lambda>log. (''header 1'', log))\<rparr>,
                 \<lparr>content = (\<lambda>log. (''content 2'', log @ [2])),
                  header = (\<lambda>log. (''header 2'', log))\<rparr>],
        setExpandedIndex = (\<lambda>i (st::int). i), buttonOnLeft = False\<rparr> []) ! 0)
   \<and> snd (Accordion
       \<lparr>expandedIndex = 2,
        items = [\<lparr>content = (\<lambda>log. (''content 0'', log @ [0::nat])),
                  header = (\<lambda>log. (''header 0'', log))\<rparr>,
                 \<lparr>content = (\<lambda>log. (''content 1'', log @ [1])),
                  header = (\<lambda>log. (''header 1'', log))\<rparr>,
                 \<lparr>content = (\<lambda>log. (''content 2'', log @ [2])),
                  header = (\<lambda>log. (''header 2'', log))\<rparr>],
        setExpandedIndex = (\<lambda>i (st::int). i), buttonOnLeft = False\<rparr> []) = [0, 1, 2]"
  by (simp add: Accordion_def AccordionItem_def is_expanded_def)

text \<open>
  C8. A click on the button of item \<open>i\<close> calls \<^verbatim>\<open>setExpandedIndex(i)\<close>, whatever
  \<^verbatim>\<open>expandedIndex\<close> is and in both layouts: there is no case for the item that is already
  open. Once the caller has stored the index, the next render shows item \<open>i\<close> expanded, so
  a click on the open item leaves it open.
\<close>

theorem C8_click_sets_clicked_index:
  "i < length (items p) \<Longrightarrow>
     click (fst (Accordion p s) ! i) st = setExpandedIndex p (int i) st
     \<and> is_expanded (fst (Accordion (p\<lparr>expandedIndex := int i\<rparr>) s') ! i)"
proof
  assume i: "i < length (items p)"
  show "click (fst (Accordion p s) ! i) st = setExpandedIndex p (int i) st"
    by (rule Accordion_nth [OF i, of s]) (simp add: AccordionItem_click)
  from i have "i < length (items (p\<lparr>expandedIndex := int i\<rparr>))" by simp
  then show "is_expanded (fst (Accordion (p\<lparr>expandedIndex := int i\<rparr>) s') ! i)"
    by (simp add: Accordion_is_expanded)
qed

text \<open>
  C8 at two items, item 1 open, the caller's state being the index itself: a click on
  item 1 stores 1 again.
\<close>

theorem C8_click_sets_clicked_index_witness:
  "(1::nat) < length [\<lparr>content = (\<lambda>u::unit. (''c0'', u)), header = (\<lambda>u. (''h0'', u))\<rparr>,
                      \<lparr>content = (\<lambda>u. (''c1'', u)), header = (\<lambda>u. (''h1'', u))\<rparr>]
   \<and> click (fst (Accordion
       \<lparr>expandedIndex = 1,
        items = [\<lparr>content = (\<lambda>u::unit. (''c0'', u)), header = (\<lambda>u. (''h0'', u))\<rparr>,
                 \<lparr>content = (\<lambda>u. (''c1'', u)), header = (\<lambda>u. (''h1'', u))\<rparr>],
        setExpandedIndex = (\<lambda>i (st::int). i), buttonOnLeft = False\<rparr> ()) ! 1) 1 = 1"
  using C8_click_sets_clicked_index [of 1 "\<lparr>expandedIndex = 1,
        items = [\<lparr>content = (\<lambda>u::unit. (''c0'', u)), header = (\<lambda>u. (''h0'', u))\<rparr>,
                 \<lparr>content = (\<lambda>u. (''c1'', u)), header = (\<lambda>u. (''h1'', u))\<rparr>],
        setExpandedIndex = (\<lambda>i (st::int). i), buttonOnLeft = False\<rparr>" "()" 1 "()"]
  by simp




section \<open>Properties of SentryAppAvatar\<close>

lemma find_filter_hd: "find Q xs = (case filter Q xs of [] \<Rightarrow> None | x # _ \<Rightarrow> Some x)"
  by (induction xs) simp_all

lemma avatarDetails_matching:
  "avatarDetails (case isColor P of None \<Rightarrow> True | Some b \<Rightarrow> b) (sentryApp P) =
     (case matching_avatars P of [] \<Rightarrow> None | d # _ \<Rightarrow> Some d)"
  by (simp add: avatarDetails_def matching_avatars_def find_filter_hd split: option.splits)

lemma SentryAppAvatar_cases:
  "SentryAppAvatar url P =
     (if isDefault P = Some True \<or> matching_avatars P = []
         \<or> avatarType (hd (matching_avatars P)) = ''default''
      then defaultSentryAppAvatar (props P)
      else BaseAvatar (props P) ''upload'' ''sentry-app-avatar''
             (avatarUuid (hd (matching_avatars P))) url (map_option name (sentryApp P))
             (defaultSentryAppAvatar (props P)))"
  by (simp add: SentryAppAvatar_def avatarDetails_matching Let_def split: list.splits)

text \<open>
  C10. The component returns the default icon exactly when \<^verbatim>\<open>isDefault\<close> is true, or no
  avatar of the app has the colour flag of the \<^verbatim>\<open>isColor\<close> prop (also when the app or its
  avatars are missing), or the first such avatar has the type \<^verbatim>\<open>'default'\<close>. In every other
  case it returns an uploaded \<^verbatim>\<open>BaseAvatar\<close> whose \<^verbatim>\<open>uploadId\<close> is the \<^verbatim>\<open>avatarUuid\<close> of the
  first such avatar and whose backup avatar is the same default icon.
\<close>

theorem C10_default_icon_or_upload:
  "(SentryAppAvatar url P = defaultSentryAppAvatar (props P)) =
      (isDefault P = Some True \<or> matching_avatars P = []
         \<or> avatarType (hd (matching_avatars P)) = ''default'')
   \<and> (SentryAppAvatar url P \<noteq> defaultSentryAppAvatar (props P) \<longrightarrow>
        SentryAppAvatar url P =
          BaseAvatar (props P) ''upload'' ''sentry-app-avatar''
            (avatarUuid (hd (matching_avatars P))) url (map_option name (sentryApp P))
            (defaultSentryAppAvatar (props P)))"
  by (simp add: SentryAppAvatar_cases defaultSentryAppAvatar_def)

text \<open>
  C10 at an app with a monochrome default avatar and a coloured uploaded one, \<^verbatim>\<open>isColor\<close>
  not given: the coloured avatar is the match, and the upload is rendered with its id.
\<close>

theorem C10_default_icon_or_upload_witness:
  "SentryAppAvatar (Some ''https://sentry.io'')
       \<lparr>isColor = None, isDefault = None,
        sentryApp = Some \<lparr>name = ''app'',
          avatars = Some [\<lparr>avatarType = ''default'', avatarUuid = ''u1'', color = Some False\<rparr>,
                          \<lparr>avatarType = ''upload'', avatarUuid = ''u2'', color = Some True\<rparr>]\<rparr>,
        props = \<lparr>avatar_size = Some 20, className = None, other_props = ()\<rparr>\<rparr>
     \<noteq> defaultSentryAppAvatar \<lparr>avatar_size = Some 20, className = None, other_props = ()\<rparr>
   \<and> uploadId (SentryAppAvatar (Some ''https://sentry.io'')
       \<lparr>isColor = None, isDefault = None,
        sentryApp = Some \<lparr>name = ''app'',
          avatars = Some [\<lparr>avatarType = ''default'', avatarUuid = ''u1'', color = Some False\<rparr>,
                          \<lparr>avatarType = ''upload'', avatarUuid = ''u2'', color = Some True\<rparr>]\<rparr>,
        props = \<lparr>avatar_size = Some 20, className = None, other_props = ()\<rparr>\<rparr>) = ''u2''"
  using C10_default_icon_or_upload [of "Some ''https://sentry.io''"
       "\<lparr>isColor = None, isDefault = None,
        sentryApp = Some \<lparr>name = ''app'',
          avatars = Some [\<lparr>avatarType = ''default'', avatarUuid = ''u1'', color = Some False\<rparr>,
                          \<lparr>avatarType = ''upload'', avatarUuid = ''u2'', color = Some True\<rparr>]\<rparr>,
        props = \<lparr>avatar_size = Some 20, className = None, other_props = ()\<rparr>\<rparr>"]
  by (auto simp add: matching_avatars_def)

section \<open>Properties of VitalDetailContent\<close>

text \<open>
  C2, as amended. The query that \<^verbatim>\<open>handleSearch\<close> pushes has no \<^verbatim>\<open>cursor\<close> key and the one
  that \<^verbatim>\<open>switchWebVital\<close> pushes has \<^verbatim>\<open>cursor: undefined\<close>: neither carries a cursor. The
  query that \<^verbatim>\<open>handleDisplayChange\<close> pushes has the \<^verbatim>\<open>cursor\<close> of the query before.
\<close>

theorem C2_cursor_after_transition:
  "\<not> carries_cursor (query (handleSearch normalizeDateTimeParams location qry))
   \<and> \<not> carries_cursor (query (switchWebVital vitalString location newVitalName))
   \<and> query (handleDisplayChange location v) ''cursor'' = query location ''cursor''"
  by (simp add: carries_cursor_def handleSearch_def omit_def switchWebVital_def
        handleDisplayChange_def)

text \<open>
  C2 as stated fails: the display is changed to P75 on a page of results, and the query
  that is pushed still carries the cursor of that page.
\<close>

theorem C2_display_change_keeps_cursor_counterexample:
  "carries_cursor (query (handleDisplayChange
      \<lparr>pathname = ''/performance/vitaldetail/'',
       query = [''display'' \<mapsto> Str ''Worst Vitals'',
                ''vitalName'' \<mapsto> Str ''measurements.lcp'',
                ''cursor'' \<mapsto> Str ''0:50:0'']\<rparr>
      DURATION_P75))"
  by (simp add: carries_cursor_def handleDisplayChange_def)

text \<open>
  C3, as amended. Every display value other than \<^verbatim>\<open>'Worst Vitals'\<close>, the known \<^verbatim>\<open>'P75'\<close>
  and an unknown one alike, takes the second branch: the chart is the \<^verbatim>\<open>VitalChart\<close> and
  the total is the dash, as for \<^verbatim>\<open>DURATION_P75\<close>.
\<close>

theorem C3_other_modes_render_as_p75:
  "dsp \<noteq> WORST_VITALS \<Longrightarrow>
     chart_view (renderContent dsp n w c) = VitalChart c
     \<and> total_events (renderContent dsp n w c) = EmDash
     \<and> chart_view (renderContent dsp n w c) = chart_view (renderContent DURATION_P75 n w c)
     \<and> total_events (renderContent dsp n w c) = total_events (renderContent DURATION_P75 n w c)"
  by (simp add: renderContent_def WORST_VITALS_def DURATION_P75_def split: option.splits)

text \<open>The amended C3 at the display value \<^verbatim>\<open>'Bogus'\<close>.\<close>

theorem C3_other_modes_render_as_p75_witness:
  "''Bogus'' \<noteq> WORST_VITALS
   \<and> chart_view (renderContent ''Bogus'' (Some 7) ''widget'' ''chart'') = VitalChart ''chart''
   \<and> total_events (renderContent ''Bogus'' (Some 7) ''widget'' ''chart'') = EmDash"
  using C3_other_modes_render_as_p75 [of "''Bogus''" "Some 7" "''widget''" "''chart''"]
  by (simp add: WORST_VITALS_def)

text \<open>
  C3 as stated fails: the unknown display value \<^verbatim>\<open>'Bogus'\<close> renders the \<^verbatim>\<open>VitalChart\<close>,
  the default mode renders the \<^verbatim>\<open>VitalWidget\<close>.
\<close>

theorem C3_unknown_mode_counterexample:
  "chart_view (renderContent ''Bogus'' (Some 7) ''widget'' ''chart'')
     \<noteq> chart_view (renderContent WORST_VITALS (Some 7) ''widget'' ''chart'')
   \<and> chart_view (renderContent ''Bogus'' (Some 7) ''widget'' ''chart'') = VitalChart ''chart''
   \<and> chart_view (renderContent WORST_VITALS (Some 7) ''widget'' ''chart'')
       = VitalWidgetWrapper ''widget''"
  by (simp add: renderContent_def WORST_VITALS_def)

text \<open>
  C6, as amended. A transition changes the parameter of its field and leaves every other
  parameter of the query before, and the path, as they were; a parameter it does not name
  is carried over, not reset. On top of that, \<^verbatim>\<open>switchWebVital\<close> resets \<^verbatim>\<open>cursor\<close> to
  \<^verbatim>\<open>undefined\<close> and \<^verbatim>\<open>handleSearch\<close> removes it, while \<^verbatim>\<open>handleDisplayChange\<close> does not reset
  \<^verbatim>\<open>cursor\<close>: it keeps the one of the query before. \<^verbatim>\<open>handleSearch\<close> writes \<^verbatim>\<open>query\<close> and
  keeps a parameter as far as \<^verbatim>\<open>normalizeDateTimeParams\<close> does.
\<close>

theorem C6_transition_changes_only_its_field:
  "(k \<noteq> ''vitalName'' \<and> k \<noteq> ''cursor'' \<longrightarrow>
      query (switchWebVital vitalString location newVitalName) k = query location k)
   \<and> query (switchWebVital vitalString location newVitalName) ''vitalName''
       = Some (Str (vitalString newVitalName))
   \<and> query (switchWebVital vitalString location newVitalName) ''cursor'' = Some Undefined
   \<and> pathname (switchWebVital vitalString location newVitalName) = pathname location
   \<and> (k \<noteq> ''display'' \<longrightarrow> query (handleDisplayChange location v) k = query location k)
   \<and> query (handleDisplayChange location v) ''display'' = Some (Str v)
   \<and> query (handleDisplayChange location v) ''cursor'' = query location ''cursor''
   \<and> pathname (handleDisplayChange location v) = pathname location
   \<and> query (handleSearch normalizeDateTimeParams location qry) ''cursor'' = None
   \<and> (k \<noteq> ''cursor'' \<longrightarrow>
        query (handleSearch normalizeDateTimeParams location qry) k
          = normalizeDateTimeParams ((query location)(''query'' \<mapsto> Str qry)) k)
   \<and> ((\<forall>m. normalizeDateTimeParams m k = m k) \<and> k \<noteq> ''cursor'' \<longrightarrow>
        query (handleSearch normalizeDateTimeParams location qry) k
          = (if k = ''query'' then Some (Str qry) else query location k))
   \<and> pathname (handleSearch normalizeDateTimeParams location qry) = pathname location"
  by (simp add: switchWebVital_def handleDisplayChange_def handleSearch_def omit_def Let_def)

text \<open>
  The amended C6 at a query with a display, a vital, a \<^verbatim>\<open>statsPeriod\<close> and a cursor:
  after each transition the \<^verbatim>\<open>statsPeriod\<close> is the one of the query before (for
  \<^verbatim>\<open>handleSearch\<close>, with a \<^verbatim>\<open>normalizeDateTimeParams\<close> that returns its argument), and the
  search text is written.
\<close>

theorem C6_transition_changes_only_its_field_witness:
  "''statsPeriod'' \<noteq> ''vitalName'' \<and> ''statsPeriod'' \<noteq> ''cursor''
   \<and> ''statsPeriod'' \<noteq> ''display'' \<and> ''query'' \<noteq> ''cursor''
   \<and> query (switchWebVital (\<lambda>v. ''measurements.fid'')
        \<lparr>pathname = ''/performance/vitaldetail/'',
         query = [''display'' \<mapsto> Str ''P75'', ''vitalName'' \<mapsto> Str ''measurements.lcp'',
                  ''statsPeriod'' \<mapsto> Str ''14d'', ''cursor'' \<mapsto> Str ''0:50:0'']\<rparr> FID)
        ''statsPeriod'' = Some (Str ''14d'')
   \<and> query (handleDisplayChange
        \<lparr>pathname = ''/performance/vitaldetail/'',
         query = [''display'' \<mapsto> Str ''P75'', ''vitalName'' \<mapsto> Str ''measurements.lcp'',
                  ''statsPeriod'' \<mapsto> Str ''14d'', ''cursor'' \<mapsto> Str ''0:50:0'']\<rparr> WORST_VITALS)
        ''statsPeriod'' = Some (Str ''14d'')
   \<and> query (handleSearch (\<lambda>m. m)
        \<lparr>pathname = ''/performance/vitaldetail/'',
         query = [''display'' \<mapsto> Str ''P75'', ''vitalName'' \<mapsto> Str ''measurements.lcp'',
                  ''statsPeriod'' \<mapsto> Str ''14d'', ''cursor'' \<mapsto> Str ''0:50:0'']\<rparr>
        ''transaction:/home'') ''statsPeriod'' = Some (Str ''14d'')
   \<and> query (handleSearch (\<lambda>m. m)
        \<lparr>pathname = ''/performance/vitaldetail/'',
         query = [''display'' \<mapsto> Str ''P75'', ''vitalName'' \<mapsto> Str ''measurements.lcp'',
                  ''statsPeriod'' \<mapsto> Str ''14d'', ''cursor'' \<mapsto> Str ''0:50:0'']\<rparr>
        ''transaction:/home'') ''query'' = Some (Str ''transaction:/home'')"
  using C6_transition_changes_only_its_field [of "''statsPeriod''" "\<lambda>v. ''measurements.fid''"
        "\<lparr>pathname = ''/performance/vitaldetail/'',
         query = [''display'' \<mapsto> Str ''P75'', ''vitalName'' \<mapsto> Str ''measurements.lcp'',
                  ''statsPeriod'' \<mapsto> Str ''14d'', ''cursor'' \<mapsto> Str ''0:50:0'']\<rparr>"
        FID WORST_VITALS "\<lambda>m. m" "''transaction:/home''"]
      C6_transition_changes_only_its_field [of "''query''" "\<lambda>v. ''measurements.fid''"
        "\<lparr>pathname = ''/performance/vitaldetail/'',
         query = [''display'' \<mapsto> Str ''P75'', ''vitalName'' \<mapsto> Str ''measurements.lcp'',
                  ''statsPeriod'' \<mapsto> Str ''14d'', ''cursor'' \<mapsto> Str ''0:50:0'']\<rparr>"
        FID WORST_VITALS "\<lambda>m. m" "''transaction:/home''"]
  by simp

text \<open>
  C6 as stated fails: the selection changes in the display only, from P75 to the worst
  vitals, and the cursor is not reset: the query that is pushed has the cursor of the query
  before.
\<close>

theorem C6_display_change_no_cursor_reset_counterexample:
  "query (handleDisplayChange
      \<lparr>pathname = ''/performance/vitaldetail/'',
       query = [''display'' \<mapsto> Str ''P75'', ''cursor'' \<mapsto> Str ''0:100:0'']\<rparr>
      WORST_VITALS) ''cursor'' = Some (Str ''0:100:0'')"
  by (simp add: handleDisplayChange_def)




section \<open>Properties of SampleTable\<close>

lemma SampleTable_pageError:
  "pageError (SampleTable t SPAN_OP SPAN_SELF_TIME metrics samples txs) =
     (if sampleError samples = None \<and> transactionError txs = None then None
      else Some (t ''An error has occured while loading the samples table''))"
  by (simp add: SampleTable_def Let_def)

lemma find_snoc:
  "find Q (xs @ [x]) =
     (case find Q xs of Some y \<Rightarrow> Some y | None \<Rightarrow> if Q x then Some x else None)"
  by (induction xs) simp_all

lemma fold_update_find:
  "fold (\<lambda>x m. m(key x \<mapsto> x)) xs m k =
     (case find (\<lambda>x. key x = k) (rev xs) of Some x \<Rightarrow> Some x | None \<Rightarrow> m k)"
  by (induction xs arbitrary: m) (auto simp: find_snoc split: option.splits)

lemma keyBy_find:
  "keyBy collection key k =
     find (\<lambda>x. key x = k) (rev (case collection of None \<Rightarrow> [] | Some xs \<Rightarrow> xs))"
  by (cases collection) (simp_all add: keyBy_def fold_update_find split: option.splits)

lemma array_map_Inr:
  "(\<And>x. x \<in> set xs \<Longrightarrow> f x = Inr (g x)) \<Longrightarrow> array_map f xs = Inr (map g xs)"
  by (induction xs) simp_all

lemma array_map_Inl:
  "xs \<noteq> [] \<Longrightarrow> (\<And>x. f x = Inl e) \<Longrightarrow> array_map f xs = Inl e"
  by (cases xs) simp_all

lemma SampleTable_element:
  assumes m: "spanMetrics metrics = Some m"
  shows "element (SampleTable t SPAN_OP SPAN_SELF_TIME metrics samples txs) =
     Inr \<lparr>hasData = (spans samples \<noteq> []),
          table_data =
            map (\<lambda>smp. \<lparr>sample = smp, op = bracket m SPAN_OP,
                         transaction =
                           bracket (keyBy (transactions txs) tx_id) (transaction_id smp)\<rparr>)
              (spans samples),
          isLoading =
            (isFetchingSpanMetrics metrics \<or> isFetchingSamples samples
               \<or> \<not> isSamplesEnabled samples
               \<or> (\<not> (\<not> isFetchingSamples samples \<and> spans samples = [])
                     \<and> isFetchingTransactions txs \<and> \<not> isTransactionsEnabled txs)),
          avg = bracket m (''avg('' @ SPAN_SELF_TIME @ '')'')\<rparr>"
proof -
  have "array_map (joined_record (spanMetrics metrics) SPAN_OP (keyBy (transactions txs) tx_id))
          (spans samples) =
        Inr (map (\<lambda>smp. \<lparr>sample = smp, op = bracket m SPAN_OP,
                         transaction =
                           bracket (keyBy (transactions txs) tx_id) (transaction_id smp)\<rparr>)
              (spans samples))"
    by (rule array_map_Inr) (simp add: joined_record_def m)
  then show ?thesis by (simp add: SampleTable_def Let_def m)
qed

text \<open>
  Two cases that the amended C4 leaves out. When the metrics data is \<^verbatim>\<open>undefined\<close> and
  there is a sample, building the rows throws. A transaction id that is the name of a member
  of \<^verbatim>\<open>Object.prototype\<close> reads that member when no transaction with the id was loaded.
\<close>

lemma SampleTable_throws_without_metrics:
  assumes "spanMetrics metrics = None" and "spans samples \<noteq> []"
  shows "element (SampleTable t SPAN_OP SPAN_SELF_TIME metrics samples txs) = Inl TypeError"
proof -
  have "array_map (joined_record (spanMetrics metrics) SPAN_OP (keyBy (transactions txs) tx_id))
          (spans samples) = Inl TypeError"
    using assms(2) by (rule array_map_Inl) (simp add: joined_record_def assms(1))
  then show ?thesis by (simp add: SampleTable_def Let_def)
qed

lemma keyBy_inherited_member:
  "bracket (keyBy None key) ''constructor'' = Inherited ''constructor''"
  by (simp add: bracket_def keyBy_def Object_prototype_keys_def)

text \<open>
  C4, as amended. When the samples or the transactions hook reports an error, the
  component sets one page error, a fixed message that is the same whichever hook failed and
  whatever its error was; with no error it sets none. When the metrics data is there, the
  table is rendered with one row for each sample that was fetched, in their order. Row \<open>i\<close>
  has the \<^verbatim>\<open>op\<close> of the metrics, and its \<^verbatim>\<open>transaction\<close> is the last loaded transaction with
  the transaction id of sample \<open>i\<close> when there is one; when there is none (so for every
  sample when the transactions have no data) and the id is not the name of a member of
  \<^verbatim>\<open>Object.prototype\<close>, the \<^verbatim>\<open>transaction\<close> is undefined.
\<close>

theorem C4_fixed_page_error_and_partial_rows:
  "pageError (SampleTable t SPAN_OP SPAN_SELF_TIME metrics samples txs) =
     (if sampleError samples = None \<and> transactionError txs = None then None
      else Some (t ''An error has occured while loading the samples table''))
   \<and> (spanMetrics metrics = Some m \<longrightarrow>
        (\<exists>el. element (SampleTable t SPAN_OP SPAN_SELF_TIME metrics samples txs) = Inr el
           \<and> hasData el = (spans samples \<noteq> [])
           \<and> map sample (table_data el) = spans samples
           \<and> (i < length (spans samples) \<longrightarrow>
                op (table_data el ! i) = bracket m SPAN_OP
              \<and> (\<forall>tx. find (\<lambda>x. tx_id x = transaction_id (spans samples ! i))
                         (rev (case transactions txs of None \<Rightarrow> [] | Some xs \<Rightarrow> xs)) = Some tx
                       \<longrightarrow> transaction (table_data el ! i) = Own tx)
              \<and> (transaction_id (spans samples ! i)
                     \<notin> tx_id ` set (case transactions txs of None \<Rightarrow> [] | Some xs \<Rightarrow> xs)
                   \<and> transaction_id (spans samples ! i) \<notin> set Object_prototype_keys
                   \<longrightarrow> transaction (table_data el ! i) = NotFound)
              \<and> (transactions txs = None
                   \<and> transaction_id (spans samples ! i) \<notin> set Object_prototype_keys
                   \<longrightarrow> transaction (table_data el ! i) = NotFound))))"
proof (intro conjI impI)
  show "pageError (SampleTable t SPAN_OP SPAN_SELF_TIME metrics samples txs) =
     (if sampleError samples = None \<and> transactionError txs = None then None
      else Some (t ''An error has occured while loading the samples table''))"
    by (rule SampleTable_pageError)
next
  assume m: "spanMetrics metrics = Some m"
  let ?loaded = "case transactions txs of None \<Rightarrow> [] | Some xs \<Rightarrow> xs"
  let ?id = "transaction_id (spans samples ! i)"
  have absent: "bracket (keyBy (transactions txs) tx_id) ?id = NotFound"
    if "?id \<notin> tx_id ` set ?loaded" and "?id \<notin> set Object_prototype_keys"
  proof -
    from that(1) have "find (\<lambda>x. tx_id x = ?id) (rev ?loaded) = None"
      by (cases "transactions txs") (auto simp: find_None_iff image_iff)
    with that(2) show ?thesis by (simp add: bracket_def keyBy_find)
  qed
  have none: "?id \<notin> tx_id ` set ?loaded" if "transactions txs = None"
    using that by simp
  show "\<exists>el. element (SampleTable t SPAN_OP SPAN_SELF_TIME metrics samples txs) = Inr el
           \<and> hasData el = (spans samples \<noteq> [])
           \<and> map sample (table_data el) = spans samples
           \<and> (i < length (spans samples) \<longrightarrow>
                op (table_data el ! i) = bracket m SPAN_OP
              \<and> (\<forall>tx. find (\<lambda>x. tx_id x = ?id) (rev ?loaded) = Some tx
                       \<longrightarrow> transaction (table_data el ! i) = Own tx)
              \<and> (?id \<notin> tx_id ` set ?loaded \<and> ?id \<notin> set Object_prototype_keys
                   \<longrightarrow> transaction (table_data el ! i) = NotFound)
              \<and> (transactions txs = None \<and> ?id \<notin> set Object_prototype_keys
                   \<longrightarrow> transaction (table_data el ! i) = NotFound))"
    using absent none
    by (simp add: SampleTable_element [OF m] comp_def bracket_def keyBy_find)
qed

text \<open>
  The amended C4 at two samples, the first with a transaction that was loaded; and at one
  sample whose transactions failed to load: the row of the sample is there, its
  transaction is undefined, and the page error is the fixed message.
\<close>

theorem C4_fixed_page_error_and_partial_rows_witness:
  "(case element (SampleTable (\<lambda>m. m) ''span.op'' ''span.self_time''
      \<lparr>spanMetrics = Some [''span.op'' \<mapsto> ''db''], isFetchingSpanMetrics = False\<rparr>
      \<lparr>spans = [\<lparr>transaction_id = ''t1''\<rparr>, \<lparr>transaction_id = ''t2''\<rparr>],
       isFetchingSamples = False, isSamplesEnabled = True, sampleError = (None :: string option)\<rparr>
      \<lparr>transactions = Some [\<lparr>tx_id = ''t1''\<rparr>], isFetchingTransactions = False,
       isTransactionsEnabled = True, isLoadingTransactions = False,
       transactionError = None\<rparr>) of
      Inl e \<Rightarrow> False
    | Inr el \<Rightarrow> map transaction (table_data el) = [Own \<lparr>tx_id = ''t1''\<rparr>, NotFound]
               \<and> map op (table_data el) = [Own ''db'', Own ''db''])
   \<and> (case element (SampleTable (\<lambda>m. m) ''span.op'' ''span.self_time''
      \<lparr>spanMetrics = Some [''span.op'' \<mapsto> ''db''], isFetchingSpanMetrics = False\<rparr>
      \<lparr>spans = [\<lparr>transaction_id = ''t1''\<rparr>], isFetchingSamples = False, isSamplesEnabled = True,
       sampleError = None\<rparr>
      \<lparr>transactions = (None :: Transaction list option), isFetchingTransactions = False,
       isTransactionsEnabled = True, isLoadingTransactions = False,
       transactionError = Some ''504 Gateway Timeout''\<rparr>) of
      Inl e \<Rightarrow> False
    | Inr el \<Rightarrow> map transaction (table_data el) = [NotFound])
   \<and> pageError (SampleTable (\<lambda>m. m) ''span.op'' ''span.self_time''
      \<lparr>spanMetrics = Some [''span.op'' \<mapsto> ''db''], isFetchingSpanMetrics = False\<rparr>
      \<lparr>spans = [\<lparr>transaction_id = ''t1''\<rparr>], isFetchingSamples = False, isSamplesEnabled = True,
       sampleError = None\<rparr>
      \<lparr>transactions = (None :: Transaction list option), isFetchingTransactions = False,
       isTransactionsEnabled = True, isLoadingTransactions = False,
       transactionError = Some ''504 Gateway Timeout''\<rparr>)
     = Some ''An error has occured while loading the samples table''"
  using C4_fixed_page_error_and_partial_rows [of "\<lambda>m. m" "''span.op''" "''span.self_time''"
      "\<lparr>spanMetrics = Some [''span.op'' \<mapsto> ''db''], isFetchingSpanMetrics = False\<rparr>"
      "\<lparr>spans = [\<lparr>transaction_id = ''t1''\<rparr>, \<lparr>transaction_id = ''t2''\<rparr>],
       isFetchingSamples = False, isSamplesEnabled = True, sampleError = (None :: string option)\<rparr>"
      "\<lparr>transactions = Some [\<lparr>tx_id = ''t1''\<rparr>], isFetchingTransactions = False,
       isTransactionsEnabled = True, isLoadingTransactions = False,
       transactionError = None\<rparr>" "[''span.op'' \<mapsto> ''db'']" 0]
    C4_fixed_page_error_and_partial_rows [of "\<lambda>m. m" "''span.op''" "''span.self_time''"
      "\<lparr>spanMetrics = Some [''span.op'' \<mapsto> ''db''], isFetchingSpanMetrics = False\<rparr>"
      "\<lparr>spans = [\<lparr>transaction_id = ''t1''\<rparr>], isFetchingSamples = False, isSamplesEnabled = True,
       sampleError = None\<rparr>"
      "\<lparr>transactions = (None :: Transaction list option), isFetchingTransactions = False,
       isTransactionsEnabled = True, isLoadingTransactions = False,
       transactionError = Some ''504 Gateway Timeout''\<rparr>" "[''span.op'' \<mapsto> ''db'']" 0]
  by (simp add: SampleTable_element bracket_def keyBy_def Object_prototype_keys_def)

text \<open>
  C4 as stated fails: the transactions fail with a timeout in one render and with a
  refusal in another; the page error is the same fixed message in both, so it does not carry
  the error that was encountered.
\<close>

theorem C4_error_not_carried_counterexample:
  "pageError (SampleTable (\<lambda>m. m) ''span.op'' ''span.self_time''
      \<lparr>spanMetrics = Some [''span.op'' \<mapsto> ''db''], isFetchingSpanMetrics = False\<rparr>
      \<lparr>spans = [\<lparr>transaction_id = ''t1''\<rparr>], isFetchingSamples = False, isSamplesEnabled = True,
       sampleError = None\<rparr>
      \<lparr>transactions = (None :: Transaction list option), isFetchingTransactions = False,
       isTransactionsEnabled = True, isLoadingTransactions = False,
       transactionError = Some ''504 Gateway Timeout''\<rparr>)
   = pageError (SampleTable (\<lambda>m. m) ''span.op'' ''span.self_time''
      \<lparr>spanMetrics = Some [''span.op'' \<mapsto> ''db''], isFetchingSpanMetrics = False\<rparr>
      \<lparr>spans = [\<lparr>transaction_id = ''t1''\<rparr>], isFetchingSamples = False, isSamplesEnabled = True,
       sampleError = None\<rparr>
      \<lparr>transactions = (None :: Transaction list option), isFetchingTransactions = False,
       isTransactionsEnabled = True, isLoadingTransactions = False,
       transactionError = Some ''403 Forbidden''\<rparr>)
   \<and> pageError (SampleTable (\<lambda>m. m) ''span.op'' ''span.self_time''
      \<lparr>spanMetrics = Some [''span.op'' \<mapsto> ''db''], isFetchingSpanMetrics = False\<rparr>
      \<lparr>spans = [\<lparr>transaction_id = ''t1''\<rparr>], isFetchingSamples = False, isSamplesEnabled = True,
       sampleError = None\<rparr>
      \<lparr>transactions = (None :: Transaction list option), isFetchingTransactions = False,
       isTransactionsEnabled = True, isLoadingTransactions = False,
       transactionError = Some ''504 Gateway Timeout''\<rparr>)
     = Some ''An error has occured while loading the samples table''"
  by (simp add: SampleTable_def Let_def)


section \<open>Properties of the DataJoiner\<close>

lemma visible_is_current_init: "visible_is_current (init_joiner s)"
  by (simp add: visible_is_current_def init_joiner_def)

lemma visible_is_current_step: "visible_is_current j \<Longrightarrow> visible_is_current (joiner_step j ev)"
  by (cases ev) (auto simp: visible_is_current_def split: option.splits list.splits)

lemma visible_is_current_foldl:
  "visible_is_current j \<Longrightarrow> visible_is_current (foldl joiner_step j evs)"
  by (induction evs arbitrary: j) (simp_all add: visible_is_current_step)

lemma visible_is_current_run: "visible_is_current (joiner_run (init_joiner s) evs)"
  by (simp add: joiner_run_def visible_is_current_foldl visible_is_current_init)

text \<open>
  C5. After every sequence of events, a completion of a fetch that was issued for a
  selection \<open>S1\<close> other than the current one is discarded: the data on the screen and the
  history of applied results stay as they were. And the data on the screen, when there is
  some, is the result of a fetch that was issued for the current selection.
\<close>

theorem C5_stale_completion_discarded:
  assumes "S1 \<noteq> current (joiner_run (init_joiner s0) evs)"
  shows "visible (joiner_step (joiner_run (init_joiner s0) evs) (FetchComplete S1 r))
       = visible (joiner_run (init_joiner s0) evs)
     \<and> applied (joiner_step (joiner_run (init_joiner s0) evs) (FetchComplete S1 r))
         = applied (joiner_run (init_joiner s0) evs)
     \<and> visible_is_current (joiner_step (joiner_run (init_joiner s0) evs) (FetchComplete S1 r))"
proof (intro conjI)
  show "visible (joiner_step (joiner_run (init_joiner s0) evs) (FetchComplete S1 r))
       = visible (joiner_run (init_joiner s0) evs)"
    using assms by simp
  show "applied (joiner_step (joiner_run (init_joiner s0) evs) (FetchComplete S1 r))
         = applied (joiner_run (init_joiner s0) evs)"
    using assms by simp
  show "visible_is_current (joiner_step (joiner_run (init_joiner s0) evs) (FetchComplete S1 r))"
    by (rule visible_is_current_step [OF visible_is_current_run])
qed

text \<open>
  C5 at the selections 1 and 2: a fetch is issued for 1, the selection moves to 2, the
  fetch for 2 completes and then the fetch for 1: the screen keeps the result for 2.
\<close>

theorem C5_stale_completion_discarded_witness:
  "(1::nat) \<noteq> current (joiner_run (init_joiner 1) [SelectionChange 2, FetchComplete 2 ''r2''])
   \<and> visible (joiner_step (joiner_run (init_joiner 1) [SelectionChange 2, FetchComplete 2 ''r2''])
        (FetchComplete 1 ''r1'')) = Some ''r2''"
  using C5_stale_completion_discarded
          [of 1 1 "[SelectionChange 2, FetchComplete 2 ''r2'']" "''r1''"]
  by (simp add: joiner_run_def init_joiner_def)

end
